theory Spec2Isabelle
  imports Complex_Main
begin

section \<open>JavaScript values and arithmetic used by MusicBrain.js\<close>

text \<open>
  Numbers of the source are IEEE doubles. Step times, velocities and random draws are small
  dyadic or decimal fractions that the source only adds, compares and halves, so integers
  are modelled as \<open>int\<close> and these fractions as exact rationals. Where the source divides
  and multiplies on the way to a rounding (\<open>analyzeBarHarmony\<close>), the operations are
  rounded to double precision by \<open>fl\<close> below.
\<close>

datatype error = TypeError | SyntaxError

text \<open>The remainder operator \<open>%\<close> on integers: the sign follows the dividend.\<close>

definition js_rem :: "int \<Rightarrow> int \<Rightarrow> int" where
  "js_rem a b = sgn a * (\<bar>a\<bar> mod \<bar>b\<bar>)"

text \<open>The same operator on fractions: \<open>a - b * trunc (a / b)\<close>, for a divisor other than 0.\<close>

definition js_trunc :: "rat \<Rightarrow> int" where
  "js_trunc x = (if 0 \<le> x then \<lfloor>x\<rfloor> else \<lceil>x\<rceil>)"

definition js_fmod :: "rat \<Rightarrow> rat \<Rightarrow> rat" where
  "js_fmod a b = a - b * of_int (js_trunc (a / b))"

text \<open>\<open>Math.round\<close>: the nearest integer, halves rounded up.\<close>

definition js_round :: "rat \<Rightarrow> int" where
  "js_round x = \<lfloor>x + 1 / 2\<rfloor>"

text \<open>\<open>xs[i]\<close>: \<open>undefined\<close> (here \<open>None\<close>) outside the array.\<close>

definition js_index :: "'a list \<Rightarrow> int \<Rightarrow> 'a option" where
  "js_index xs i = (if 0 \<le> i \<and> i < int (length xs) then Some (xs ! nat i) else None)"


subsection \<open>Objects used as dictionaries\<close>

text \<open>
  The tables of the source are object literals, so \<open>table[key]\<close> also finds the
  properties that every object inherits from \<open>Object.prototype\<close>. All of them are truthy:
  \<open>__proto__\<close> is the prototype object itself, the others are functions. A lookup
  therefore has three outcomes: an own entry, an inherited value (which defeats every
  \<open>|| fallback\<close>), or \<open>undefined\<close>.
\<close>

definition objectPrototypeKeys :: "string list" where
  "objectPrototypeKeys =
    [''constructor'', ''__defineGetter__'', ''__defineSetter__'', ''hasOwnProperty'',
     ''__lookupGetter__'', ''__lookupSetter__'', ''isPrototypeOf'', ''propertyIsEnumerable'',
     ''toString'', ''valueOf'', ''__proto__'', ''toLocaleString'']"

datatype 'a js_prop = Own 'a | Inherited string | Missing

definition js_get :: "(string \<times> 'a) list \<Rightarrow> string \<Rightarrow> 'a js_prop" where
  "js_get obj key =
    (case map_of obj key of
       Some v \<Rightarrow> Own v
     | None \<Rightarrow> if key \<in> set objectPrototypeKeys then Inherited key else Missing)"






subsection \<open>Double precision\<close>

text \<open>
  \<open>fl x\<close> is the double nearest to \<open>x\<close> (ties to the even significand): with
  \<open>2 ^ e \<le> \<bar>x\<bar> < 2 ^ (e + 1)\<close> the doubles around \<open>x\<close> are the multiples of
  \<open>2 ^ (e - 52)\<close>. The exponent is searched within the range of the normal doubles,
  \<open>- 1022 \<le> e \<le> 1023\<close>; outside it (overflow, gradual underflow) \<open>x\<close> is left as it is.
  Division and multiplication of doubles are \<open>fl\<close> of the exact result.
\<close>

definition pow2 :: "int \<Rightarrow> rat" where
  "pow2 e = (if 0 \<le> e then 2 ^ nat e else 1 / 2 ^ nat (- e))"

fun exponentUp :: "nat \<Rightarrow> int \<Rightarrow> rat \<Rightarrow> int option" where
  "exponentUp 0 e x = None"
| "exponentUp (Suc n) e x = (if x < pow2 (e + 1) then Some e else exponentUp n (e + 1) x)"

fun exponentDown :: "nat \<Rightarrow> int \<Rightarrow> rat \<Rightarrow> int option" where
  "exponentDown 0 e x = None"
| "exponentDown (Suc n) e x = (if pow2 e \<le> x then Some e else exponentDown n (e - 1) x)"

definition floatExponent :: "rat \<Rightarrow> int option" where
  "floatExponent x = (if 1 \<le> x then exponentUp 1024 0 x else exponentDown 1022 (- 1) x)"

definition roundEven :: "rat \<Rightarrow> int" where
  "roundEven q =
    (let f = \<lfloor>q\<rfloor>; d = q - of_int f
     in if d < 1 / 2 then f else if 1 / 2 < d then f + 1 else if even f then f else f + 1)"

definition fl :: "rat \<Rightarrow> rat" where
  "fl x =
    (if x = 0 then 0
     else case floatExponent \<bar>x\<bar> of
            None \<Rightarrow> x
          | Some e \<Rightarrow> of_int (roundEven (x / pow2 (e - 52))) * pow2 (e - 52))"

section \<open>Theory tables\<close>

definition scales_Major :: "int list" where
  "scales_Major = [0, 2, 4, 5, 7, 9, 11]"

definition scales_table :: "(string \<times> int list) list" where
  "scales_table =
    [(''Major'', scales_Major),
     (''Minor'', [0, 2, 3, 5, 7, 8, 10]),
     (''HarmonicMinor'', [0, 2, 3, 5, 7, 8, 11]),
     (''Dorian'', [0, 2, 3, 5, 7, 9, 10]),
     (''Mixolydian'', [0, 2, 4, 5, 7, 9, 10]),
     (''Blues'', [0, 3, 5, 6, 7, 10]),
     (''PentatonicMajor'', [0, 2, 4, 7, 9]),
     (''PentatonicMinor'', [0, 3, 5, 7, 10])]"

record chordDef =
  name :: string
  ctype :: string
  intervals :: "int list"
  func :: string
  vibe :: string

definition mkChord :: "string \<Rightarrow> string \<Rightarrow> int list \<Rightarrow> string \<Rightarrow> string \<Rightarrow> chordDef" where
  "mkChord n t i f v = \<lparr>name = n, ctype = t, intervals = i, func = f, vibe = v\<rparr>"

definition chordDegrees_table :: "(string \<times> chordDef list) list" where
  "chordDegrees_table =
    [(''Major'',
      [mkChord ''I'' ''Major'' [0, 4, 7] ''TONIC'' ''Home, Stable'',
       mkChord ''ii'' ''Minor'' [2, 5, 9] ''SUPERTONIC'' ''Pre-Dominant'',
       mkChord ''iii'' ''Minor'' [4, 7, 11] ''MEDIANT'' ''Emotional bridge'',
       mkChord ''IV'' ''Major'' [5, 9, 0] ''SUBDOMINANT'' ''Motion, Openness'',
       mkChord ''V'' ''Major'' [7, 11, 2] ''DOMINANT'' ''Tension -> Home'',
       mkChord ''vi'' ''Minor'' [9, 0, 4] ''SUBMEDIANT'' ''Sad relative'',
       mkChord ''vii dim'' ''Dim'' [11, 2, 5] ''LEADING'' ''Unstable'']),
     (''Minor'',
      [mkChord ''i'' ''Minor'' [0, 3, 7] ''TONIC'' ''Home, Dark'',
       mkChord ''ii dim'' ''Dim'' [2, 5, 8] ''SUPERTONIC'' ''Tense prep'',
       mkChord ''III'' ''Major'' [3, 7, 10] ''MEDIANT'' ''Relative Major'',
       mkChord ''iv'' ''Minor'' [5, 8, 0] ''SUBDOMINANT'' ''Soft motion'',
       mkChord ''v'' ''Minor'' [7, 10, 2] ''DOMINANT'' ''Soft tension'',
       mkChord ''VI'' ''Major'' [8, 0, 3] ''SUBMEDIANT'' ''Epic lift'',
       mkChord ''VII'' ''Major'' [10, 2, 5] ''SUBTONIC'' ''Backdoor'']),
     (''HarmonicMinor'',
      [mkChord ''i'' ''Minor'' [0, 3, 7] ''TONIC'' ''Home, Serious'',
       mkChord ''ii dim'' ''Dim'' [2, 5, 8] ''SUPERTONIC'' ''Tense'',
       mkChord ''III+'' ''Aug'' [3, 7, 11] ''MEDIANT'' ''Suspense'',
       mkChord ''iv'' ''Minor'' [5, 8, 0] ''SUBDOMINANT'' ''Dark motion'',
       mkChord ''V'' ''Major'' [7, 11, 2] ''DOMINANT'' ''STRONG Tension!'',
       mkChord ''VI'' ''Major'' [8, 0, 3] ''SUBMEDIANT'' ''Deceptive resolve'',
       mkChord ''vii dim'' ''Dim'' [11, 2, 5] ''LEADING'' ''Very Unstable'']),
     (''Dorian'',
      [mkChord ''i'' ''Minor'' [0, 3, 7] ''TONIC'' ''Groovy Home'',
       mkChord ''ii'' ''Minor'' [2, 5, 9] ''SUPERTONIC'' ''Soulful prep'',
       mkChord ''III'' ''Major'' [3, 7, 10] ''MEDIANT'' ''Bright contrast'',
       mkChord ''IV'' ''Major'' [5, 9, 0] ''SUBDOMINANT'' ''The Dorian Flavor!'',
       mkChord ''v'' ''Minor'' [7, 10, 2] ''DOMINANT'' ''Soft pull'',
       mkChord ''vi dim'' ''Dim'' [9, 0, 3] ''SUBMEDIANT'' ''Dark passing'',
       mkChord ''VII'' ''Major'' [10, 2, 5] ''SUBTONIC'' ''Classic Rock resolve'']),
     (''Mixolydian'',
      [mkChord ''I'' ''Major'' [0, 4, 7] ''TONIC'' ''Happy Home'',
       mkChord ''ii'' ''Minor'' [2, 5, 9] ''SUPERTONIC'' ''Mellow'',
       mkChord ''iii dim'' ''Dim'' [4, 7, 10] ''MEDIANT'' ''Unstable'',
       mkChord ''IV'' ''Major'' [5, 9, 0] ''SUBDOMINANT'' ''Bright motion'',
       mkChord ''v'' ''Minor'' [7, 10, 2] ''DOMINANT'' ''Modal flavor'',
       mkChord ''vi'' ''Minor'' [9, 0, 4] ''SUBMEDIANT'' ''Relative minor'',
       mkChord ''bVII'' ''Major'' [10, 2, 5] ''SUBTONIC'' ''Backdoor to I'']),
     (''Blues'',
      [mkChord ''I7'' ''Dom7'' [0, 4, 7] ''TONIC'' ''Blues Home'',
       mkChord ''IV7'' ''Dom7'' [5, 9, 0] ''SUBDOMINANT'' ''Blues motion'',
       mkChord ''V7'' ''Dom7'' [7, 11, 2] ''DOMINANT'' ''Turnaround'',
       mkChord ''I'' ''Major'' [0, 4, 7] ''TONIC'' ''Simplified'',
       mkChord ''bVII'' ''Major'' [10, 2, 5] ''SUBTONIC'' ''Cool resolve'']),
     (''PentatonicMajor'',
      [mkChord ''I'' ''Major'' [0, 4, 7] ''TONIC'' ''Home'',
       mkChord ''ii'' ''Minor'' [2, 5, 9] ''SUPERTONIC'' ''Soft'',
       mkChord ''iii'' ''Minor'' [4, 7, 11] ''MEDIANT'' ''Sweet'',
       mkChord ''V'' ''Major'' [7, 11, 2] ''DOMINANT'' ''Strong'',
       mkChord ''vi'' ''Minor'' [9, 0, 4] ''SUBMEDIANT'' ''Warm'']),
     (''PentatonicMinor'',
      [mkChord ''i'' ''Minor'' [0, 3, 7] ''TONIC'' ''Base'',
       mkChord ''III'' ''Major'' [3, 7, 10] ''MEDIANT'' ''Bright'',
       mkChord ''iv'' ''Minor'' [5, 8, 0] ''SUBDOMINANT'' ''Drifting'',
       mkChord ''v'' ''Minor'' [7, 10, 2] ''DOMINANT'' ''Soft'',
       mkChord ''VII'' ''Major'' [10, 2, 5] ''SUBTONIC'' ''Rock vibe''])]"

record vocalRange =
  rmin :: int
  rmax :: int

definition vocalRanges_table :: "(string \<times> vocalRange) list" where
  "vocalRanges_table =
    [(''NONE'', \<lparr>rmin = 0, rmax = 127\<rparr>),
     (''SOPRANO'', \<lparr>rmin = 60, rmax = 84\<rparr>),
     (''MEZZO'', \<lparr>rmin = 57, rmax = 81\<rparr>),
     (''ALTO'', \<lparr>rmin = 53, rmax = 77\<rparr>),
     (''TENOR'', \<lparr>rmin = 48, rmax = 72\<rparr>),
     (''BARITONE'', \<lparr>rmin = 41, rmax = 64\<rparr>),
     (''BASS'', \<lparr>rmin = 36, rmax = 60\<rparr>)]"

section \<open>Scale notes and bar harmony\<close>

text \<open>
  \<open>getScaleNotes\<close> fills a \<open>Set\<close> in a loop \<open>for (i = 0; i < 127; i++)\<close>; the list below
  holds the set's elements in insertion order. An inherited value has no method
  \<open>includes\<close>, so the first pass of the loop raises a \<open>TypeError\<close>.
\<close>

definition getScaleNotes :: "int \<Rightarrow> string \<Rightarrow> error + int list" where
  "getScaleNotes rootKey scaleName =
    (case (case js_get scales_table scaleName of
             Own ix \<Rightarrow> Some ix
           | Inherited k \<Rightarrow> None
           | Missing \<Rightarrow> Some scales_Major) of
       None \<Rightarrow> Inl TypeError
     | Some indices \<Rightarrow>
         Inr (filter (\<lambda>i. js_rem (i - rootKey + 12) 12 \<in> set indices) (map int [0..<127])))"

record 'm noteEvent =
  midi :: 'm
  time :: rat
  duration :: rat
  velocity :: rat

record barHarmony =
  score :: int
  details :: "string option"
  chordName :: "string option"

definition analyzeBarHarmony :: "int noteEvent list \<Rightarrow> chordDef option \<Rightarrow> int \<Rightarrow> barHarmony" where
  "analyzeBarHarmony barNotes chordDefinition rootKey =
    (case chordDefinition of
       None \<Rightarrow> \<lparr>score = 0, details = Some ''No Chord'', chordName = None\<rparr>
     | Some cd \<Rightarrow>
         if length barNotes = 0
         then \<lparr>score = 100, details = Some ''Empty'', chordName = None\<rparr>
         else
           let allowedPCs = map (\<lambda>interval. js_rem (rootKey + interval) 12) (intervals cd);
               matchCount = fold (\<lambda>n c. if js_rem (midi n) 12 \<in> set allowedPCs then c + 1 else c)
                              barNotes (0::int);
               percentage =
                 js_round (fl (fl (of_int matchCount / of_nat (length barNotes)) * 100))
           in \<lparr>score = percentage, details = None, chordName = Some (name cd)\<rparr>)"

section \<open>Song templates, progression styles and arpeggiator styles\<close>

text \<open>
  A template's \<open>structure\<close> array (field \<open>parts\<close> here) lists parts
  \<open>{type, len}\<close>, written as pairs.
\<close>

record songTemplate =
  genre :: string
  label :: string
  bpm :: int
  parts :: "(string \<times> int) list"

definition songTemplates_POP_RADIO :: songTemplate where
  "songTemplates_POP_RADIO =
    \<lparr>genre = ''POP'', label = ''Pop: Radio Hit'', bpm = 120,
     parts = [(''INTRO'', 4), (''VERSE'', 8), (''PRE_CHORUS'', 4), (''CHORUS'', 8),
                  (''VERSE'', 8), (''PRE_CHORUS'', 4), (''CHORUS'', 8),
                  (''BRIDGE'', 8), (''CHORUS'', 16), (''OUTRO'', 4)]\<rparr>"

definition songTemplates_table :: "(string \<times> songTemplate) list" where
  "songTemplates_table =
    [(''POP_RADIO'', songTemplates_POP_RADIO),
     (''POP_SHORT'',
      \<lparr>genre = ''POP'', label = ''Pop: Short / Viral'', bpm = 124,
       parts = [(''INTRO'', 4), (''VERSE'', 8), (''CHORUS'', 8),
                    (''VERSE'', 8), (''CHORUS'', 8), (''OUTRO'', 4)]\<rparr>),
     (''POP_EPIC'',
      \<lparr>genre = ''POP'', label = ''Pop: Power Ballad / Epic'', bpm = 75,
       parts = [(''INTRO'', 4), (''VERSE'', 8), (''PRE_CHORUS'', 4), (''CHORUS'', 8),
                    (''VERSE'', 8), (''PRE_CHORUS'', 4), (''CHORUS'', 8),
                    (''SOLO'', 8), (''BRIDGE'', 8), (''CHORUS'', 16), (''OUTRO'', 8)]\<rparr>),
     (''TRAP'',
      \<lparr>genre = ''HIPHOP'', label = ''Hip Hop: Modern Trap'', bpm = 140,
       parts = [(''INTRO'', 4), (''CHORUS'', 8), (''VERSE'', 16),
                    (''CHORUS'', 8), (''VERSE'', 16), (''CHORUS'', 8), (''OUTRO'', 4)]\<rparr>),
     (''BOOMBAP'',
      \<lparr>genre = ''HIPHOP'', label = ''Hip Hop: Old School'', bpm = 90,
       parts = [(''INTRO'', 4), (''VERSE'', 16), (''CHORUS'', 4),
                    (''VERSE'', 16), (''CHORUS'', 4), (''VERSE'', 16), (''OUTRO'', 8)]\<rparr>),
     (''EDM_RADIO'',
      \<lparr>genre = ''EDM'', label = ''EDM: Radio Edit'', bpm = 128,
       parts = [(''INTRO'', 8), (''VERSE'', 8), (''PRE_CHORUS'', 8), (''CHORUS'', 8),
                    (''VERSE'', 8), (''PRE_CHORUS'', 8), (''CHORUS'', 16), (''OUTRO'', 8)]\<rparr>),
     (''EDM_CLUB'',
      \<lparr>genre = ''EDM'', label = ''EDM: Club Extended'', bpm = 128,
       parts = [(''INTRO'', 16), (''VERSE'', 16), (''PRE_CHORUS'', 8), (''CHORUS'', 16),
                    (''BRIDGE'', 8), (''PRE_CHORUS'', 8), (''CHORUS'', 16), (''OUTRO'', 16)]\<rparr>),
     (''ROCK_CLASSIC'',
      \<lparr>genre = ''ROCK'', label = ''Classic Rock'', bpm = 110,
       parts = [(''INTRO'', 4), (''VERSE'', 8), (''CHORUS'', 8),
                    (''VERSE'', 8), (''CHORUS'', 8), (''SOLO'', 8),
                    (''CHORUS'', 16), (''OUTRO'', 4)]\<rparr>),
     (''PUNK_ROCK'',
      \<lparr>genre = ''ROCK'', label = ''Punk / High Energy'', bpm = 160,
       parts = [(''INTRO'', 4), (''VERSE'', 8), (''CHORUS'', 8),
                    (''VERSE'', 8), (''CHORUS'', 8), (''OUTRO'', 4)]\<rparr>),
     (''LOFI_BEAT'',
      \<lparr>genre = ''LOFI'', label = ''Lo-Fi Hip Hop'', bpm = 80,
       parts = [(''INTRO'', 4), (''VERSE'', 16), (''BRIDGE'', 4),
                    (''VERSE'', 16), (''OUTRO'', 8)]\<rparr>),
     (''REGGAETON'',
      \<lparr>genre = ''LATIN'', label = ''Latin / Reggaeton'', bpm = 95,
       parts = [(''INTRO'', 4), (''CHORUS'', 8), (''VERSE'', 16),
                    (''CHORUS'', 8), (''VERSE'', 16), (''CHORUS'', 8), (''OUTRO'', 4)]\<rparr>),
     (''PERSIAN_SLOW_6_8'',
      \<lparr>genre = ''PERSIAN'', label = ''Persian: Slow 6/8 (Slo-Rock)'', bpm = 85,
       parts = [(''INTRO'', 4), (''VERSE'', 8), (''PRE_CHORUS'', 4), (''CHORUS'', 8),
                    (''SOLO'', 8), (''VERSE'', 8), (''CHORUS'', 16), (''OUTRO'', 8)]\<rparr>),
     (''PERSIAN_POP_NOSTALGIA'',
      \<lparr>genre = ''PERSIAN'', label = ''Persian: 80s/90s Pop'', bpm = 105,
       parts = [(''INTRO'', 8), (''VERSE'', 8), (''CHORUS'', 8), (''VERSE'', 8),
                    (''CHORUS'', 8), (''BRIDGE'', 8), (''CHORUS'', 16), (''OUTRO'', 8)]\<rparr>)]"

text \<open>
  A progression style; \<open>sections\<close> lists the style's own section keys with their chord
  indices, and a lookup \<open>style.sections[key]\<close> is \<open>map_of (sections style) key\<close>.
\<close>

record progStyle =
  styleName :: string
  preferredScale :: string
  sections :: "(string \<times> int list) list"

definition mkStyle :: "string \<Rightarrow> string \<Rightarrow> (string \<times> int list) list \<Rightarrow> progStyle" where
  "mkStyle n p s = \<lparr>styleName = n, preferredScale = p, sections = s\<rparr>"

definition progressionStyles_POP :: "progStyle list" where
  "progressionStyles_POP =
    [mkStyle ''The Axis of Awesome'' ''Major''
       [(''INTRO'', [0]), (''VERSE'', [0, 4]), (''PRE_CHORUS'', [5, 3]),
        (''CHORUS'', [0, 4, 5, 3]), (''BRIDGE'', [3, 4, 3, 4]), (''SOLO'', [0, 4, 5, 3]),
        (''OUTRO'', [0])],
     mkStyle ''Emotional Ballad'' ''Major''
       [(''INTRO'', [5, 3]), (''VERSE'', [5, 3]), (''PRE_CHORUS'', [1, 4]),
        (''CHORUS'', [5, 3, 0, 4]), (''BRIDGE'', [2, 5, 1, 4]), (''SOLO'', [5, 3, 0, 4]),
        (''OUTRO'', [3, 0])],
     mkStyle ''Doo-Wop / 50s'' ''Major''
       [(''INTRO'', [0, 5, 3, 4]), (''VERSE'', [0, 5, 3, 4]), (''PRE_CHORUS'', [3, 4]),
        (''CHORUS'', [0, 5, 3, 4]), (''BRIDGE'', [1, 4, 0, 4]), (''SOLO'', [0, 5, 3, 4]),
        (''OUTRO'', [0, 3, 0])],
     mkStyle ''Royal Road (Anime/Epic)'' ''Major''
       [(''INTRO'', [3, 4, 2, 5]), (''VERSE'', [0, 4, 5, 0]), (''PRE_CHORUS'', [3, 4]),
        (''CHORUS'', [3, 4, 2, 5]), (''BRIDGE'', [1, 4, 3, 4]), (''SOLO'', [3, 4, 2, 5]),
        (''OUTRO'', [3, 4, 0])],
     mkStyle ''Dreamy / Psychedelic'' ''Major''
       [(''INTRO'', [0, 3]), (''VERSE'', [0, 3]), (''PRE_CHORUS'', [1, 4]),
        (''CHORUS'', [0, 3, 0, 3]), (''BRIDGE'', [5, 2, 3, 4]), (''SOLO'', [0, 3]),
        (''OUTRO'', [0])],
     mkStyle ''80s Synth-Pop Revival'' ''Major''
       [(''INTRO'', [5, 5, 3, 3]), (''VERSE'', [5, 0, 4, 3]), (''PRE_CHORUS'', [1, 4]),
        (''CHORUS'', [5, 3, 0, 4]), (''BRIDGE'', [3, 4, 3, 4]), (''SOLO'', [5, 3, 0, 4]),
        (''OUTRO'', [5])],
     mkStyle ''Gen-Z Alternative'' ''Minor''
       [(''INTRO'', [5]), (''VERSE'', [5, 3]), (''PRE_CHORUS'', [0, 4]),
        (''CHORUS'', [5, 2, 3, 4]), (''BRIDGE'', [1, 6, 5]), (''OUTRO'', [5])]]"

definition progressionStyles_table :: "(string \<times> progStyle list) list" where
  "progressionStyles_table =
    [(''POP'', progressionStyles_POP),
     (''EDM'',
      [mkStyle ''Festival Anthem'' ''Minor''
         [(''INTRO'', [5]), (''VERSE'', [5, 2]), (''PRE_CHORUS'', [3, 4]),
          (''CHORUS'', [5, 3, 0, 4]), (''DROP'', [5, 3, 0, 4]), (''BRIDGE'', [1, 4]),
          (''OUTRO'', [5, 0])],
       mkStyle ''Summer Vibes'' ''Major''
         [(''INTRO'', [3, 0]), (''VERSE'', [3, 0]), (''PRE_CHORUS'', [1, 4]),
          (''CHORUS'', [3, 0, 4, 5]), (''DROP'', [3, 0, 4, 5]), (''BRIDGE'', [1, 3, 4]),
          (''OUTRO'', [3, 3, 0])]]),
     (''HIPHOP'',
      [mkStyle ''Dark Trap'' ''Phrygian''
         [(''INTRO'', [0, 1]), (''VERSE'', [0, 1]), (''PRE_CHORUS'', [3, 4]),
          (''CHORUS'', [0, 2, 0, 1]), (''BRIDGE'', [3, 4]), (''OUTRO'', [0])],
       mkStyle ''Melodic / Emo Rap'' ''Minor''
         [(''INTRO'', [5, 4]), (''VERSE'', [5, 4]), (''PRE_CHORUS'', [3, 4]),
          (''CHORUS'', [3, 4, 5, 5]), (''BRIDGE'', [1, 4]), (''OUTRO'', [5])]]),
     (''ROCK'',
      [mkStyle ''Arena Rock'' ''Mixolydian''
         [(''INTRO'', [0, 6, 3]), (''VERSE'', [0, 3]), (''PRE_CHORUS'', [5, 4]),
          (''CHORUS'', [0, 6, 3, 4]), (''SOLO'', [0, 6, 3]), (''BRIDGE'', [1, 4]),
          (''OUTRO'', [0, 0, 0])],
       mkStyle ''Alternative / Grunge'' ''Minor''
         [(''INTRO'', [5, 2]), (''VERSE'', [5, 2]), (''PRE_CHORUS'', [3, 4]),
          (''CHORUS'', [5, 0, 4, 4]), (''SOLO'', [5, 0, 4]), (''OUTRO'', [5])]]),
     (''LOFI'',
      [mkStyle ''Jazz Hop (2-5-1)'' ''Dorian''
         [(''INTRO'', [1, 4]), (''VERSE'', [1, 4, 0, 5]), (''PRE_CHORUS'', [3, 6]),
          (''CHORUS'', [1, 4, 0, 0]), (''BRIDGE'', [3, 4]), (''SOLO'', [1, 4, 0]),
          (''OUTRO'', [0])],
       mkStyle ''Nostalgic Drift'' ''Major''
         [(''INTRO'', [3]), (''VERSE'', [3, 2]), (''PRE_CHORUS'', [1, 4]),
          (''CHORUS'', [3, 2, 1, 4]), (''BRIDGE'', [5, 4]), (''OUTRO'', [0])]]),
     (''LATIN'',
      [mkStyle ''Despacito Vibe'' ''Major''
         [(''INTRO'', [5, 3]), (''VERSE'', [5, 3]), (''PRE_CHORUS'', [0, 4]),
          (''CHORUS'', [5, 3, 0, 4]), (''BRIDGE'', [1, 4]), (''SOLO'', [5, 3, 0, 4]),
          (''OUTRO'', [5])],
       mkStyle ''Party Starter'' ''Minor''
         [(''INTRO'', [1, 4]), (''VERSE'', [1, 4]), (''PRE_CHORUS'', [3, 4]),
          (''CHORUS'', [1, 4, 5, 5]), (''SOLO'', [1, 4, 5]), (''OUTRO'', [1])]]),
     (''PERSIAN'',
      [mkStyle ''Ghomayshi Vibe (Andalusian)'' ''HarmonicMinor''
         [(''INTRO'', [4, 4, 0, 0]), (''VERSE'', [0, 6, 5, 4]), (''PRE_CHORUS'', [3, 0, 3, 4]),
          (''CHORUS'', [0, 6, 5, 4]), (''BRIDGE'', [5, 6, 3, 4]), (''SOLO'', [0, 6, 5, 4]),
          (''OUTRO'', [4, 0])],
       mkStyle ''6/8 Persian Ballad'' ''HarmonicMinor''
         [(''INTRO'', [0, 3]), (''VERSE'', [0, 3, 4, 0]), (''PRE_CHORUS'', [3, 0, 4, 4]),
          (''CHORUS'', [2, 5, 3, 4]), (''BRIDGE'', [1, 4]), (''OUTRO'', [0])]])]"





section \<open>Structure wizard methods\<close>

definition bindE :: "error + 'a \<Rightarrow> ('a \<Rightarrow> error + 'b) \<Rightarrow> error + 'b" where
  "bindE x f = (case x of Inl e \<Rightarrow> Inl e | Inr v \<Rightarrow> f v)"

text \<open>
  \<open>generateSongStructure\<close>: an inherited value has no property \<open>structure\<close>, so
  \<open>template.structure.forEach\<close> raises a \<open>TypeError\<close>.
\<close>

definition generateSongStructure :: "string \<Rightarrow> error + string list" where
  "generateSongStructure templateKey =
    (case (case js_get songTemplates_table templateKey of
             Own t \<Rightarrow> Some t
           | Inherited k \<Rightarrow> None
           | Missing \<Rightarrow> Some songTemplates_POP_RADIO) of
       None \<Rightarrow> Inl TypeError
     | Some template \<Rightarrow> Inr (concat (map (\<lambda>(ty, n). replicate (nat n) ty) (parts template))))"


text \<open>\<open>getStyleByVibe\<close>: \<open>None\<close> is the result \<open>undefined\<close>.\<close>

definition getStyleByVibe :: "string \<Rightarrow> int \<Rightarrow> progStyle option" where
  "getStyleByVibe genreKey vibeIndex =
    (case (case js_get progressionStyles_table genreKey of
             Own s \<Rightarrow> Some s
           | Inherited k \<Rightarrow> None
           | Missing \<Rightarrow> Some progressionStyles_POP) of
       None \<Rightarrow> None
     | Some styles \<Rightarrow>
         (case js_index styles vibeIndex of Some s \<Rightarrow> Some s | None \<Rightarrow> js_index styles 0))"



text \<open>
  The chord assignment of the structure wizard (the click handler of \<open>applyStructureBtn\<close>):
  bar \<open>i\<close> takes \<open>sectionChords[i % sectionChords.length]\<close>, or 0 where that is
  \<open>undefined\<close>: for an empty list and for an inherited value (\<open>None\<close> below), which has
  no element at any index.
\<close>

definition resolveSectionChords :: "progStyle \<Rightarrow> string \<Rightarrow> int list option" where
  "resolveSectionChords selectedStyle currentSection =
    (let targetSectionForChords =
           (if currentSection = ''SOLO'' \<or> currentSection = ''DROP'' then ''CHORUS''
            else currentSection)
     in case js_get (sections selectedStyle) targetSectionForChords of
          Own c \<Rightarrow> Some c
        | Inherited k \<Rightarrow> None
        | Missing \<Rightarrow>
            (case map_of (sections selectedStyle) ''CHORUS'' of
               Some c \<Rightarrow> Some c
             | None \<Rightarrow>
                 (case map_of (sections selectedStyle) ''VERSE'' of
                    Some c \<Rightarrow> Some c
                  | None \<Rightarrow> Some [0])))"

definition barChordAt :: "progStyle \<Rightarrow> string list \<Rightarrow> nat \<Rightarrow> int" where
  "barChordAt selectedStyle barStructure i =
    (case resolveSectionChords selectedStyle (barStructure ! i) of
       None \<Rightarrow> 0
     | Some sectionChords \<Rightarrow>
         if sectionChords = [] then 0 else sectionChords ! (i mod length sectionChords))"

definition assignBarChords :: "progStyle \<Rightarrow> string list \<Rightarrow> int list" where
  "assignBarChords selectedStyle barStructure =
    map (barChordAt selectedStyle barStructure) [0..<length barStructure]"

text \<open>
  The handler returns early for a template key that finds nothing (\<open>None\<close>); otherwise
  it stores the bar structure and the bar chords in the song state. An \<open>undefined\<close> style
  raises a \<open>TypeError\<close> at \<open>selectedStyle.sections\<close> in the first pass of the loop over the
  bars.
\<close>

definition applyStructure :: "string \<Rightarrow> int \<Rightarrow> string \<Rightarrow> (error + string list \<times> int list) option" where
  "applyStructure templateKey vibeIndex genreKey =
    (case js_get songTemplates_table templateKey of
       Missing \<Rightarrow> None
     | _ \<Rightarrow>
         Some (bindE (generateSongStructure templateKey) (\<lambda>barStructure.
                 case getStyleByVibe genreKey vibeIndex of
                   None \<Rightarrow> if barStructure = [] then Inr ([], []) else Inl TypeError
                 | Some selectedStyle \<Rightarrow>
                     Inr (barStructure, assignBarChords selectedStyle barStructure))))"

section \<open>Drum pattern engine\<close>

definition KICK :: int where "KICK = 36"
definition SNARE :: int where "SNARE = 38"
definition CHAT :: int where "CHAT = 42"
definition OHAT :: int where "OHAT = 46"
definition CRASH :: int where "CRASH = 49"
definition LO_TOM :: int where "LO_TOM = 41"
definition MID_TOM :: int where "MID_TOM = 45"
definition HI_TOM :: int where "HI_TOM = 48"

record drumTable =
  kick :: "int list"
  snare :: "int list"
  hat :: "int list"

definition patterns_POP :: drumTable where
  "patterns_POP =
    \<lparr>kick  = [1,0,0,0, 0,0,0,0, 1,0,0,0, 0,0,1,0],
     snare = [0,0,0,0, 1,0,0,0, 0,0,0,0, 1,0,0,0],
     hat   = [1,1,1,1, 1,1,1,1, 1,1,1,1, 1,1,1,1]\<rparr>"

definition patterns_table :: "(string \<times> drumTable) list" where
  "patterns_table =
    [(''ROCK'',
      \<lparr>kick  = [1,0,0,0, 0,0,1,0, 1,0,0,0, 0,0,1,0],
       snare = [0,0,0,0, 1,0,0,0, 0,0,0,0, 1,0,0,0],
       hat   = [1,1,1,1, 1,1,1,1, 1,1,1,1, 1,1,1,1]\<rparr>),
     (''POP'', patterns_POP),
     (''TECHNO'',
      \<lparr>kick  = [1,0,0,0, 1,0,0,0, 1,0,0,0, 1,0,0,0],
       snare = [0,0,0,0, 1,0,0,0, 0,0,0,0, 1,0,0,0],
       hat   = [0,0,1,0, 0,0,1,0, 0,0,1,0, 0,0,1,0]\<rparr>),
     (''EDM'',
      \<lparr>kick  = [1,0,0,0, 1,0,0,0, 1,0,0,0, 1,0,0,0],
       snare = [0,0,0,0, 1,0,0,0, 0,0,0,0, 1,0,0,0],
       hat   = [0,0,1,0, 0,0,1,0, 0,0,1,0, 0,0,1,0]\<rparr>),
     (''HIPHOP'',
      \<lparr>kick  = [1,0,0,0, 0,0,0,0, 1,0,0,0, 0,0,0,0],
       snare = [0,0,0,0, 0,0,0,0, 1,0,0,0, 0,0,0,0],
       hat   = [1,0,1,0, 1,1,1,0, 1,0,1,0, 1,0,1,1]\<rparr>),
     (''LOFI'',
      \<lparr>kick  = [1,0,0,0, 0,0,0,0, 0,0,1,0, 0,0,0,0],
       snare = [0,0,0,0, 1,0,0,0, 0,0,0,0, 1,0,0,0],
       hat   = [1,0,1,0, 1,0,1,0, 1,0,1,0, 1,0,1,0]\<rparr>),
     (''LATIN'',
      \<lparr>kick  = [1,0,0,0, 1,0,0,0, 1,0,0,0, 1,0,0,0],
       snare = [0,0,0,1, 0,0,1,0, 0,0,0,1, 0,0,1,0],
       hat   = [1,0,1,0, 1,0,1,0, 1,0,1,0, 1,0,1,0]\<rparr>),
     (''PERSIAN'',
      \<lparr>kick  = [1,0,0,0, 0,0,1,0, 1,0,0,0, 0,0,0,0],
       snare = [0,0,0,0, 1,0,0,0, 0,0,0,0, 1,0,0,1],
       hat   = [1,1,1,1, 1,1,1,1, 1,1,1,1, 1,1,1,1]\<rparr>)]"

text \<open>\<open>if (xs[s]) ...\<close>: the entry exists and is not 0.\<close>

definition js_truthy_at :: "int list \<Rightarrow> int \<Rightarrow> bool" where
  "js_truthy_at xs s = (case js_index xs s of Some v \<Rightarrow> v \<noteq> 0 | None \<Rightarrow> False)"

text \<open>\<open>if (c) notesToAdd.push(x)\<close>.\<close>

definition pushIf :: "bool \<Rightarrow> int \<Rightarrow> int list" where
  "pushIf c x = (if c then [x] else [])"

text \<open>
  Part 3 of \<open>getDrumPattern\<close> (the transition logic, entered when \<open>isTransition\<close> holds
  on a whole step): \<open>Some notes\<close> where the source returns \<open>notesToAdd\<close>, \<open>None\<close> where
  it falls through to the base patterns (nothing has been pushed by then).
\<close>

definition drumTransition :: "string \<Rightarrow> string \<Rightarrow> string \<Rightarrow> int \<Rightarrow> int list option" where
  "drumTransition genreKey currentSection nextSection s =
    (if currentSection = ''INTRO'' then
       (if s \<ge> 14 then Some (pushIf (s = 14) SNARE @ pushIf (s = 15) SNARE) else None)
     else if currentSection = ''CHORUS'' \<and> nextSection \<noteq> ''CHORUS'' \<and> nextSection \<noteq> ''OUTRO'' then
       (if s \<ge> 12
        then Some (pushIf (s = 12) HI_TOM @ pushIf (s = 13) MID_TOM @ pushIf (s = 14) LO_TOM)
        else None)
     else if nextSection = ''CHORUS'' \<or> nextSection = ''OUTRO'' \<or> s \<ge> 8 then
       (if s \<ge> 8 then
          (if genreKey = ''ROCK'' then
             Some (pushIf (s = 8 \<or> s = 9) SNARE @ pushIf (s = 10 \<or> s = 11) MID_TOM
                   @ pushIf (s = 12 \<or> s = 13) LO_TOM @ pushIf (s = 14) KICK
                   @ pushIf (s = 15) SNARE)
           else if genreKey = ''POP'' then
             Some (pushIf (s = 8 \<or> s = 9) SNARE @ pushIf (s = 10) KICK @ pushIf (s = 11) MID_TOM
                   @ pushIf (s = 12) KICK @ pushIf (s = 13) HI_TOM
                   @ (if s = 14 then [SNARE, LO_TOM] else []))
           else if genreKey = ''TECHNO'' then
             Some ([SNARE] @ pushIf (js_rem s 2 = 0) KICK)
           else if genreKey = ''TRAP'' then
             Some (pushIf (s = 8) SNARE @ pushIf (s = 9) SNARE @ pushIf (s = 10) SNARE
                   @ pushIf (s = 13) KICK @ pushIf (s = 14) SNARE @ pushIf (s = 15) SNARE)
           else if nextSection = ''CHORUS'' \<or> nextSection = ''OUTRO'' \<or> s \<ge> 8 then
             (if s \<ge> 8 then
                Some (if genreKey = ''ROCK'' \<or> genreKey = ''PUNK_ROCK'' then []
                      else if genreKey = ''POP'' then []
                      else if genreKey = ''TECHNO'' \<or> genreKey = ''EDM'' then []
                      else if genreKey = ''HIPHOP'' \<or> genreKey = ''TRAP'' then
                        pushIf (s = 8) SNARE @ pushIf (s = 9) SNARE @ pushIf (s = 10) SNARE
                        @ pushIf (s = 13) KICK @ pushIf (s = 14) SNARE @ pushIf (s = 15) SNARE
                      else pushIf (s = 14) SNARE @ pushIf (s = 15) SNARE)
              else Some [])
           else Some [])
        else None)
     else None)"

text \<open>
  \<open>if (pt.kick[s]) notesToAdd.push(KICK)\<close> and its like: an inherited value \<open>pt\<close>
  (\<open>None\<close>) has no property \<open>kick\<close>, \<open>snare\<close> or \<open>hat\<close>, so the read raises a
  \<open>TypeError\<close>.
\<close>

definition readStep :: "drumTable option \<Rightarrow> (drumTable \<Rightarrow> int list) \<Rightarrow> int \<Rightarrow> int
    \<Rightarrow> error + int list" where
  "readStep pt row s x =
    (case pt of None \<Rightarrow> Inl TypeError | Some p \<Rightarrow> Inr (pushIf (js_truthy_at (row p) s) x))"

text \<open>Part 4 of \<open>getDrumPattern\<close>: the base patterns on a whole step.\<close>

definition drumBase :: "string \<Rightarrow> drumTable option \<Rightarrow> string \<Rightarrow> int \<Rightarrow> int \<Rightarrow> error + int list" where
  "drumBase genreKey pt currentSection s stepIndex =
    (if currentSection = ''PRE_CHORUS'' then
       Inr (pushIf (js_rem s 4 = 0) KICK @ pushIf (js_rem s 2 = 0) CHAT
            @ pushIf (s = 7 \<or> s = 15) SNARE)
     else
       bindE (if currentSection = ''INTRO'' then Inr (pushIf (s = 0 \<or> s = 8) KICK)
              else if currentSection = ''SOLO'' then readStep pt kick s KICK
              else if currentSection \<noteq> ''BRIDGE'' then readStep pt kick s KICK
              else Inr []) (\<lambda>kicks.
       bindE (if currentSection \<noteq> ''INTRO'' \<and> currentSection \<noteq> ''OUTRO''
              then readStep pt snare s SNARE else Inr []) (\<lambda>snares.
       bindE (if currentSection = ''CHORUS'' \<or> currentSection = ''SOLO'' then
                (if genreKey \<noteq> ''TECHNO''
                 then Inr (if js_rem s 4 = 2 then [OHAT] else [CHAT])
                 else readStep pt hat s CHAT)
              else readStep pt hat s CHAT) (\<lambda>hats.
       Inr (kicks @ snares @ hats
            @ pushIf ((currentSection = ''CHORUS'' \<or> currentSection = ''SOLO'') \<and> stepIndex = 0)
                CRASH)))))"

text \<open>
  \<open>getDrumPattern\<close>. With \<open>stepsPerBar = 0\<close> the step unit is 0, \<open>subStep\<close> is
  \<open>NaN\<close>, both guards \<open>subStep === 0\<close> fail and the empty list is returned.
\<close>

definition getDrumPattern :: "string \<Rightarrow> string \<Rightarrow> string \<Rightarrow> int \<Rightarrow> rat \<Rightarrow> bool
    \<Rightarrow> error + int list" where
  "getDrumPattern genreKey currentSection nextSection stepIndex stepsPerBar isTransition =
    (let unit = stepsPerBar / 16
     in if unit = 0 then Inr []
        else
          let normalizedStep = \<lfloor>of_int stepIndex / unit\<rfloor>;
              subStep = js_fmod (of_int stepIndex) unit;
              s = js_rem normalizedStep 16;
              pt = (case js_get patterns_table genreKey of
                      Own p \<Rightarrow> Some p
                    | Inherited k \<Rightarrow> None
                    | Missing \<Rightarrow> Some patterns_POP)
          in case (if isTransition \<and> subStep = 0
                   then drumTransition genreKey currentSection nextSection s else None) of
               Some notesToAdd \<Rightarrow> Inr notesToAdd
             | None \<Rightarrow>
                 if subStep = 0 then drumBase genreKey pt currentSection s stepIndex
                 else Inr [])"

section \<open>Melody generation: smooth voice leading\<close>

text \<open>
  \<open>Math.random()\<close> is a stream \<open>rnd\<close> of draws read through a counter: each call takes
  \<open>rnd k\<close> and moves the counter to \<open>Suc k\<close>.
\<close>

record songState =
  rootKey :: int
  scaleName :: string
  stepsPerBar :: rat
  totalBars :: int
  barChords :: "int list"
  barStructure :: "string list"
  vocalRangeType :: string

text \<open>A rhythm entry \<open>{duration, isRest}\<close>; the field \<open>duration\<close> is \<open>ndur\<close> here.\<close>

record rhythmDef =
  ndur :: rat
  isRest :: bool

definition motifs_MEDIUM :: "rat list list" where
  "motifs_MEDIUM = [[3, 3, 2, 4, 4], [4, 2, 2, 8], [2, 2, 4, 4, 4], [4, 4, 2, 2, 4], [6, 2, 6, 2]]"

definition motifs_table :: "(string \<times> rat list list) list" where
  "motifs_table =
    [(''LOW'', [[4, 4, 8], [6, 2, 8], [8, 4, 4], [4, 4, 4, 4]]),
     (''MEDIUM'', motifs_MEDIUM),
     (''HIGH'', [[2, 2, 2, 2, 4, 4], [3, 1, 3, 1, 4, 4], [2, 4, 2, 4, 4]])]"

text \<open>
  \<open>generateMelodicRhythm\<close> draws once; \<open>r\<close> is the draw. An inherited value has no
  element at any index, so \<open>base.map\<close> raises a \<open>TypeError\<close>.
\<close>

definition generateMelodicRhythm :: "string \<Rightarrow> rat \<Rightarrow> error + rhythmDef list" where
  "generateMelodicRhythm complexity r =
    (case (case js_get motifs_table complexity of
             Own l \<Rightarrow> Some l
           | Inherited k \<Rightarrow> None
           | Missing \<Rightarrow> Some motifs_MEDIUM) of
       None \<Rightarrow> Inl TypeError
     | Some list \<Rightarrow>
         (case js_index list \<lfloor>r * of_nat (length list)\<rfloor> of
            None \<Rightarrow> Inl TypeError
          | Some base \<Rightarrow> Inr (map (\<lambda>d. \<lparr>ndur = d, isRest = False\<rparr>) base)))"

definition variateRhythmSimple :: "rhythmDef list \<Rightarrow> rhythmDef list" where
  "variateRhythmSimple p =
    (case p of
       [] \<Rightarrow> []
     | first # rest \<Rightarrow>
         if ndur first \<ge> 4
         then (let half = ndur first / 2
               in \<lparr>ndur = half, isRest = False\<rparr> # \<lparr>ndur = half, isRest = False\<rparr> # rest)
         else p)"

definition getIntroArpeggio :: "rhythmDef list" where
  "getIntroArpeggio =
    [\<lparr>ndur = 4, isRest = False\<rparr>, \<lparr>ndur = 4, isRest = True\<rparr>,
     \<lparr>ndur = 4, isRest = False\<rparr>, \<lparr>ndur = 4, isRest = True\<rparr>]"

text \<open>The score of one candidate in \<open>pickSmoothNote\<close>, with the random draw \<open>r\<close>.\<close>

definition noteScore :: "int \<Rightarrow> int list \<Rightarrow> bool \<Rightarrow> int \<Rightarrow> rat \<Rightarrow> rat" where
  "noteScore lastMidi allowedPCs isStrongBeat candidate r =
    (let absDist = \<bar>candidate - lastMidi\<bar>;
         proximity = (if absDist = 0 then - 5
                      else if absDist \<le> 2 then 20
                      else if absDist \<le> 4 then 10
                      else if absDist \<le> 5 then 5
                      else - (of_int absDist * 2));
         isChordTone = js_rem candidate 12 \<in> set allowedPCs;
         harmony = (if isChordTone then (if isStrongBeat then 15 else 5)
                    else (if \<not> isStrongBeat then 5 else - 5))
     in proximity + harmony + r * 8)"

text \<open>
  The \<open>forEach\<close> over the candidates: the state is the best note, the best score
  (\<open>None\<close> for \<open>-Infinity\<close>) and the counter of the random stream.
\<close>

fun pickBest :: "(nat \<Rightarrow> rat) \<Rightarrow> (int \<Rightarrow> rat \<Rightarrow> rat) \<Rightarrow> int list
    \<Rightarrow> int \<times> rat option \<times> nat \<Rightarrow> int \<times> rat option \<times> nat" where
  "pickBest rnd sc [] st = st"
| "pickBest rnd sc (c # cs) (bestNote, bestScore, k) =
    (let score = sc c (rnd k)
     in pickBest rnd sc cs
          (if (case bestScore of None \<Rightarrow> True | Some b \<Rightarrow> score > b)
           then (c, Some score, Suc k) else (bestNote, bestScore, Suc k)))"

text \<open>
  \<open>pickSmoothNote\<close>: \<open>Inr (None, k)\<close> is the result \<open>null\<close>. A chord definition that is
  \<open>undefined\<close> (\<open>None\<close>) raises a \<open>TypeError\<close> at \<open>chordDef.intervals\<close>. A bound of the
  range that is \<open>undefined\<close> or \<open>NaN\<close> (\<open>None\<close>) fails the test \<open>m <= max\<close> of the loop
  over the range, which then finds no tone.
\<close>

definition pickSmoothNote :: "(nat \<Rightarrow> rat) \<Rightarrow> nat \<Rightarrow> int \<Rightarrow> chordDef option \<Rightarrow> int \<Rightarrow> int list
    \<Rightarrow> int option \<Rightarrow> int option \<Rightarrow> bool \<Rightarrow> bool \<Rightarrow> error + int option \<times> nat" where
  "pickSmoothNote rnd k lastMidi chordDef rootKey' scaleNotes mn mx isStrongBeat isPhraseStart =
    (case chordDef of
       None \<Rightarrow> Inl TypeError
     | Some cd \<Rightarrow>
         let allowedPCs = map (\<lambda>i. js_rem (rootKey' + i) 12) (intervals cd);
             scaleTones = (case (mn, mx) of
                             (Some lo, Some hi) \<Rightarrow> filter (\<lambda>m. m \<in> set scaleNotes) [lo..hi]
                           | _ \<Rightarrow> []);
             chordTones = filter (\<lambda>m. js_rem m 12 \<in> set allowedPCs) scaleTones
         in if length scaleTones = 0 then Inr (None, k)
            else if isPhraseStart \<or> lastMidi = - 1 then
              (if length chordTones > 0
               then Inr (Some (chordTones ! (length chordTones div 2)), k)
               else Inr (Some (scaleTones ! (length scaleTones div 2)), k))
            else
              (case pickBest rnd (noteScore lastMidi allowedPCs isStrongBeat) scaleTones
                      (scaleTones ! 0, None, k) of
                 (bestNote, bestScore, k') \<Rightarrow> Inr (Some bestNote, k')))"

text \<open>\<open>barStructure[i] || 'NONE'\<close>: a missing or empty entry is \<open>'NONE'\<close>.\<close>

definition sectionAt :: "string list \<Rightarrow> int \<Rightarrow> string" where
  "sectionAt bs i = (case js_index bs i of Some sec \<Rightarrow> (if sec = [] then ''NONE'' else sec)
                     | None \<Rightarrow> ''NONE'')"

text \<open>
  Step 4 of \<open>generateMelody\<close>, the note placement loop of one bar. The state is the last
  pitch, the counter of the random stream and the notes pushed so far.
\<close>

fun placeNotes :: "(nat \<Rightarrow> rat) \<Rightarrow> songState \<Rightarrow> chordDef option \<Rightarrow> int list \<Rightarrow> int option
    \<Rightarrow> int option \<Rightarrow> string \<Rightarrow> int \<Rightarrow> nat \<Rightarrow> rhythmDef list \<Rightarrow> rat
    \<Rightarrow> int \<times> nat \<times> int noteEvent list \<Rightarrow> error + int \<times> nat \<times> int noteEvent list" where
  "placeNotes rnd state chordDef scaleNotes targetMin targetMax currentSection currentBar
      positionInPhrase [] stepCursor st = Inr st"
| "placeNotes rnd state chordDef scaleNotes targetMin targetMax currentSection currentBar
      positionInPhrase (noteDef # rest) stepCursor (lastMidi, k, newNotes) =
    (if stepCursor \<ge> stepsPerBar state then Inr (lastMidi, k, newNotes)
     else
       let dur = (if stepCursor + ndur noteDef > stepsPerBar state
                  then stepsPerBar state - stepCursor else ndur noteDef);
           isStrongBeat = (js_fmod stepCursor 4 = 0);
           absTime = of_int currentBar * stepsPerBar state + stepCursor
       in if \<not> isRest noteDef then
            (case pickSmoothNote rnd k lastMidi chordDef (rootKey state) scaleNotes
                    targetMin targetMax isStrongBeat (stepCursor = 0 \<and> positionInPhrase = 0) of
               Inl e \<Rightarrow> Inl e
             | Inr (generatedMidi, k') \<Rightarrow>
                 (case generatedMidi of
                    None \<Rightarrow>
                      placeNotes rnd state chordDef scaleNotes targetMin targetMax currentSection
                        currentBar positionInPhrase rest (stepCursor + dur) (lastMidi, k', newNotes)
                  | Some m \<Rightarrow>
                      if m = 0 then
                        placeNotes rnd state chordDef scaleNotes targetMin targetMax currentSection
                          currentBar positionInPhrase rest (stepCursor + dur) (lastMidi, k', newNotes)
                      else
                        let vel = (if currentSection = ''CHORUS'' then 95 / 100 else 8 / 10);
                            vel = (if \<not> isStrongBeat then vel - 15 / 100 else vel)
                        in placeNotes rnd state chordDef scaleNotes targetMin targetMax
                             currentSection currentBar positionInPhrase rest (stepCursor + dur)
                             (m, k',
                              newNotes @ [\<lparr>midi = m, time = absTime, duration = dur,
                                           velocity = max (1 / 10) (min 1 vel)\<rparr>])))
          else placeNotes rnd state chordDef scaleNotes targetMin targetMax currentSection
                 currentBar positionInPhrase rest (stepCursor + dur) (lastMidi, k, newNotes))"

text \<open>
  Step 3 of \<open>generateMelody\<close>: the rhythm of bar \<open>b\<close> of the request, and the counter
  after it (the phrase-end pattern draws once).
\<close>

definition barRhythm :: "(nat \<Rightarrow> rat) \<Rightarrow> nat \<Rightarrow> songState \<Rightarrow> int \<Rightarrow> rhythmDef list \<Rightarrow> nat
    \<Rightarrow> rhythmDef list \<times> nat" where
  "barRhythm rnd k state len mainRhythm b =
    (let positionInPhrase = b mod 4
     in if int b = len - 1 then ([\<lparr>ndur = stepsPerBar state, isRest = False\<rparr>], k)
        else if positionInPhrase = 3
        then ([\<lparr>ndur = 8, isRest = False\<rparr>, \<lparr>ndur = 8, isRest = (rnd k > 1 / 2)\<rparr>], Suc k)
        else if positionInPhrase = 2 then (variateRhythmSimple mainRhythm, k)
        else (mainRhythm, k))"

text \<open>
  The chord definition of a bar, \<open>this.chordDegrees[state.scaleName][chordIdx]\<close>: a scale
  name that finds nothing raises a \<open>TypeError\<close>; an inherited value has no element at any
  index, so the chord definition is \<open>undefined\<close> (\<open>None\<close>) as it is for an index outside
  the table.
\<close>

definition barChordDef :: "songState \<Rightarrow> int \<Rightarrow> error + chordDef option" where
  "barChordDef state currentBar =
    (let chordIdx = (case js_index (barChords state) currentBar of Some c \<Rightarrow> c | None \<Rightarrow> 0)
     in case js_get chordDegrees_table (scaleName state) of
          Missing \<Rightarrow> Inl TypeError
        | Inherited k \<Rightarrow> Inr None
        | Own degrees \<Rightarrow> Inr (js_index degrees chordIdx))"

text \<open>The loop over the bars \<open>b\<close> of the request; \<open>break\<close> ends it with the state so far.\<close>

fun melodyBars :: "(nat \<Rightarrow> rat) \<Rightarrow> songState \<Rightarrow> int \<Rightarrow> int \<Rightarrow> int list \<Rightarrow> int option
    \<Rightarrow> int option \<Rightarrow> rhythmDef list \<Rightarrow> nat list
    \<Rightarrow> int \<times> nat \<times> int noteEvent list \<Rightarrow> error + int \<times> nat \<times> int noteEvent list" where
  "melodyBars rnd state startBar len scaleNotes targetMin targetMax mainRhythm [] st = Inr st"
| "melodyBars rnd state startBar len scaleNotes targetMin targetMax mainRhythm (b # bs)
      (lastMidi, k, newNotes) =
    (let currentBar = startBar + int b
     in if currentBar \<ge> totalBars state then Inr (lastMidi, k, newNotes)
        else
          let currentSection = sectionAt (barStructure state) currentBar
          in case barChordDef state currentBar of
               Inl e \<Rightarrow> Inl e
             | Inr chordDef \<Rightarrow>
                 let (currentRhythmPattern, k1) = barRhythm rnd k state len mainRhythm b;
                     currentRhythmPattern =
                       (if currentSection = ''INTRO'' then getIntroArpeggio
                        else currentRhythmPattern)
                 in case placeNotes rnd state chordDef scaleNotes targetMin targetMax
                           currentSection currentBar (b mod 4) currentRhythmPattern 0
                           (lastMidi, k1, newNotes) of
                      Inl e \<Rightarrow> Inl e
                    | Inr st' \<Rightarrow>
                        melodyBars rnd state startBar len scaleNotes targetMin targetMax
                          mainRhythm bs st')"

text \<open>
  The vocal range after the adjustment by the first section. An inherited value has no
  property \<open>min\<close> or \<open>max\<close>: both bounds are \<open>undefined\<close> (or \<open>NaN\<close> after the
  adjustment).
\<close>

definition adjustedRange :: "songState \<Rightarrow> int \<Rightarrow> int option \<times> int option" where
  "adjustedRange state startBar =
    (let firstSection = sectionAt (barStructure state) startBar
     in case (case js_get vocalRanges_table (vocalRangeType state) of
                Own r \<Rightarrow> Some r
              | Inherited k \<Rightarrow> None
              | Missing \<Rightarrow> Some \<lparr>rmin = 48, rmax = 84\<rparr>) of
          None \<Rightarrow> (None, None)
        | Some range' \<Rightarrow>
            (Some (if firstSection \<noteq> ''VERSE'' \<and> firstSection = ''CHORUS''
                   then rmin range' + 4 else rmin range'),
             Some (if firstSection = ''VERSE'' then rmax range' - 4 else rmax range')))"

definition generateMelody :: "(nat \<Rightarrow> rat) \<Rightarrow> int \<Rightarrow> int \<Rightarrow> string \<Rightarrow> songState
    \<Rightarrow> error + int noteEvent list" where
  "generateMelody rnd startBar len complexity state =
    bindE (getScaleNotes (rootKey state) (scaleName state)) (\<lambda>scaleNotes.
      let (targetMin, targetMax) = adjustedRange state startBar
      in bindE (generateMelodicRhythm complexity (rnd 0)) (\<lambda>mainRhythm.
           case melodyBars rnd state startBar len scaleNotes targetMin targetMax mainRhythm
                  [0..<nat len] (- 1, 1, []) of
             Inl e \<Rightarrow> Inl e
           | Inr (lastMidi, k, newNotes) \<Rightarrow> Inr newNotes))"

text \<open>
  The same loop with the notes kept apart by the pass that pushed them: one entry
  \<open>(currentBar, notes)\<close> for every pass of the loop over the bars.
\<close>

fun melodyBarsBy :: "(nat \<Rightarrow> rat) \<Rightarrow> songState \<Rightarrow> int \<Rightarrow> int \<Rightarrow> int list \<Rightarrow> int option
    \<Rightarrow> int option \<Rightarrow> rhythmDef list \<Rightarrow> nat list
    \<Rightarrow> int \<times> nat \<Rightarrow> error + (int \<times> int noteEvent list) list" where
  "melodyBarsBy rnd state startBar len scaleNotes targetMin targetMax mainRhythm [] st = Inr []"
| "melodyBarsBy rnd state startBar len scaleNotes targetMin targetMax mainRhythm (b # bs)
      (lastMidi, k) =
    (let currentBar = startBar + int b
     in if currentBar \<ge> totalBars state then Inr []
        else
          let currentSection = sectionAt (barStructure state) currentBar
          in case barChordDef state currentBar of
               Inl e \<Rightarrow> Inl e
             | Inr chordDef \<Rightarrow>
                 let (currentRhythmPattern, k1) = barRhythm rnd k state len mainRhythm b;
                     currentRhythmPattern =
                       (if currentSection = ''INTRO'' then getIntroArpeggio
                        else currentRhythmPattern)
                 in case placeNotes rnd state chordDef scaleNotes targetMin targetMax
                           currentSection currentBar (b mod 4) currentRhythmPattern 0
                           (lastMidi, k1, []) of
                      Inl e \<Rightarrow> Inl e
                    | Inr (lastMidi', k', pushed) \<Rightarrow>
                        bindE (melodyBarsBy rnd state startBar len scaleNotes targetMin targetMax
                                 mainRhythm bs (lastMidi', k'))
                          (\<lambda>later. Inr ((currentBar, pushed) # later)))"

definition generateMelodyByBar :: "(nat \<Rightarrow> rat) \<Rightarrow> int \<Rightarrow> int \<Rightarrow> string \<Rightarrow> songState
    \<Rightarrow> error + (int \<times> int noteEvent list) list" where
  "generateMelodyByBar rnd startBar len complexity state =
    bindE (getScaleNotes (rootKey state) (scaleName state)) (\<lambda>scaleNotes.
      let (targetMin, targetMax) = adjustedRange state startBar
      in bindE (generateMelodicRhythm complexity (rnd 0)) (\<lambda>mainRhythm.
           melodyBarsBy rnd state startBar len scaleNotes targetMin targetMax mainRhythm
             [0..<nat len] (- 1, 1)))"

section \<open>Melody generation: the Markov stepper\<close>

text \<open>A motif entry \<open>{dur, type}\<close>; the field \<open>type\<close> is \<open>mtype\<close> here.\<close>

record motifDef =
  dur :: rat
  mtype :: string

text \<open>
  The class body declares \<open>generateGoodMotif\<close> twice. The later declaration, with the
  parameters \<open>(complexity, stepsPerBar)\<close>, replaces the earlier one, so the vibe that
  \<open>generateMelodyMarkov\<close> passes as third argument is ignored. \<open>r\<close> is the draw.
\<close>

definition generateGoodMotif :: "string \<Rightarrow> rat \<Rightarrow> rat \<Rightarrow> error + motifDef list" where
  "generateGoodMotif complexity spb r =
    (let beat = spb / 4;
         patternsLow = [[beat, beat, beat, beat],
                        [beat * (3 / 2), beat * (1 / 2), beat, beat],
                        [beat * 2, beat, beat]];
         patternsHigh = [[beat / 2, beat / 2, beat, beat / 2, beat / 2, beat],
                         [beat * (3 / 4), beat * (1 / 4), beat, beat * (3 / 4), beat * (1 / 4), beat],
                         [beat, beat / 2, beat / 2, beat / 2, beat / 2, beat]];
         source = (if complexity = ''HIGH'' then patternsHigh else patternsLow);
         source = (if complexity = ''MEDIUM'' then patternsLow @ patternsHigh else source)
     in case js_index source \<lfloor>r * of_nat (length source)\<rfloor> of
          None \<Rightarrow> Inl TypeError
        | Some rawRhythm \<Rightarrow>
            Inr (map (\<lambda>d. \<lparr>dur = of_int (max 1 \<lfloor>d\<rfloor>), mtype = ''NOTE''\<rparr>) rawRhythm))"

fun variateMotif :: "motifDef list \<Rightarrow> motifDef list" where
  "variateMotif [] = []"
| "variateMotif (m # ms) =
    (if dur m \<ge> 4 \<and> mtype m = ''NOTE''
     then (let half = of_int \<lfloor>dur m / 2\<rfloor>
           in \<lparr>dur = half, mtype = mtype m\<rparr> # \<lparr>dur = half, mtype = ''NOTE''\<rparr> # ms)
     else m # variateMotif ms)"

definition getScaleNotesArr :: "int \<Rightarrow> string \<Rightarrow> int \<Rightarrow> int \<Rightarrow> error + int list" where
  "getScaleNotesArr rootKey' sn minMidi maxMidi =
    bindE (getScaleNotes rootKey' sn) (\<lambda>baseNotes.
      Inr (filter (\<lambda>m. m \<in> set baseNotes) [minMidi..maxMidi]))"

text \<open>The sort key of the candidates: the distance to the last pitch, 100 for a repetition.\<close>

definition markovScore :: "int \<Rightarrow> int \<Rightarrow> int" where
  "markovScore lastMidi a = (let dist = \<bar>a - lastMidi\<bar> in if dist = 0 then 100 else dist)"

text \<open>
  The pitch selection of one note. A pitch is \<open>None\<close> where the source has
  \<open>undefined\<close> (an index outside an array); comparisons with it fail, so no candidate
  is found and the pitch is repeated. \<open>Array.prototype.sort\<close> is stable.
\<close>

definition markovPick :: "(nat \<Rightarrow> rat) \<Rightarrow> nat \<Rightarrow> int option \<Rightarrow> int list \<Rightarrow> int list \<Rightarrow> bool
    \<Rightarrow> int option \<times> nat" where
  "markovPick rnd k lastMidi validRangeNotes chordClasses isStrongBeat =
    (if lastMidi = Some (- 1) then
       let midRange = filter (\<lambda>n. n \<ge> 60 \<and> n \<le> 72) validRangeNotes;
           starters = (if length midRange > 0 then midRange else validRangeNotes);
           starters =
             (if length chordClasses > 0 then
                (let chordStarters = filter (\<lambda>n. js_rem n 12 \<in> set chordClasses) starters
                 in if length chordStarters > 0 then chordStarters else starters)
              else starters)
       in (js_index starters \<lfloor>rnd k * of_nat (length starters)\<rfloor>, Suc k)
     else
       (case lastMidi of
          None \<Rightarrow> (None, k)
        | Some l \<Rightarrow>
            let neighbors = filter (\<lambda>n. \<bar>n - l\<bar> \<le> 7) validRangeNotes;
                candidates =
                  (if isStrongBeat \<and> length chordClasses > 0
                   then filter (\<lambda>n. js_rem n 12 \<in> set chordClasses) neighbors else []);
                candidates = (if length candidates = 0 then neighbors else candidates);
                candidates =
                  (if length candidates = 0
                   then filter (\<lambda>n. \<bar>n - l\<bar> \<le> 12) validRangeNotes else candidates)
            in if length candidates > 0 then
                 (let sorted = sort_key (markovScore l) candidates;
                      r = rnd k;
                      idx = (if r > 6 / 10 then 1 else 0);
                      idx = (if r > 9 / 10 then min 2 (int (length sorted) - 1) else idx)
                  in (js_index sorted (min idx (int (length sorted) - 1)), Suc k))
               else (Some l, k)))"

text \<open>The pitch selection loop over the pattern of one bar.\<close>

fun markovNotes :: "(nat \<Rightarrow> rat) \<Rightarrow> rat \<Rightarrow> rat \<Rightarrow> int list \<Rightarrow> string \<Rightarrow> int list \<Rightarrow> int
    \<Rightarrow> motifDef list \<Rightarrow> rat
    \<Rightarrow> int option \<times> nat \<times> int option noteEvent list
    \<Rightarrow> int option \<times> nat \<times> int option noteEvent list" where
  "markovNotes rnd spb beat allScaleNotes currentSection chordClasses absoluteBar []
      currentStepInBar st = st"
| "markovNotes rnd spb beat allScaleNotes currentSection chordClasses absoluteBar (noteDef # rest)
      currentStepInBar (lastMidi, k, generatedNotes) =
    (if currentStepInBar \<ge> spb then (lastMidi, k, generatedNotes)
     else
       let duration' = (if currentStepInBar + dur noteDef > spb
                        then spb - currentStepInBar else dur noteDef)
       in if mtype noteDef = ''REST'' then
            markovNotes rnd spb beat allScaleNotes currentSection chordClasses absoluteBar rest
              (currentStepInBar + duration') (lastMidi, k, generatedNotes)
          else
            let absTime = of_int absoluteBar * spb + currentStepInBar;
                isStrongBeat = (beat \<noteq> 0 \<and> js_fmod currentStepInBar beat = 0);
                validRangeNotes = (if currentSection = ''CHORUS''
                                   then filter (\<lambda>n. n \<ge> 65) allScaleNotes else allScaleNotes);
                (targetMidi, k1) =
                  markovPick rnd k lastMidi validRangeNotes chordClasses isStrongBeat;
                vel = (if currentSection = ''CHORUS'' then 85 / 100 else 75 / 100);
                vel = (if isStrongBeat then vel + 1 / 10 else vel);
                vel = vel + (rnd k1 * (1 / 10) - 5 / 100)
            in markovNotes rnd spb beat allScaleNotes currentSection chordClasses absoluteBar rest
                 (currentStepInBar + duration')
                 (targetMidi, Suc k1,
                  generatedNotes @ [\<lparr>midi = targetMidi, time = absTime, duration = duration',
                                     velocity = of_int (js_round (vel * 100)) / 100\<rparr>]))"

text \<open>
  The pattern of bar \<open>b\<close>. The last bar of a phrase does not use the section motif. The
  other bars copy it through \<open>JSON.parse(JSON.stringify(...))\<close>: an inherited function has
  no JSON text, so the parse raises a \<open>SyntaxError\<close>; the inherited \<open>Object.prototype\<close>
  is copied to an empty object, which the loop \<open>for (... of currentPattern)\<close> cannot
  iterate (\<open>TypeError\<close>).
\<close>

definition barPattern :: "(string \<times> motifDef list) list \<Rightarrow> motifDef list \<Rightarrow> string \<Rightarrow> rat \<Rightarrow> nat
    \<Rightarrow> error + motifDef list" where
  "barPattern motifBank verseMotif currentSection beat b =
    (let phrasePos = b mod 4
     in if phrasePos = 3
        then Inr [\<lparr>dur = beat * 2, mtype = ''NOTE''\<rparr>, \<lparr>dur = beat * 2, mtype = ''REST''\<rparr>]
        else
          (case js_get motifBank currentSection of
             Inherited k \<Rightarrow> Inl (if k = ''__proto__'' then TypeError else SyntaxError)
           | Own baseMotif \<Rightarrow> Inr (if phrasePos = 2 then variateMotif baseMotif else baseMotif)
           | Missing \<Rightarrow> Inr (if phrasePos = 2 then variateMotif verseMotif else verseMotif)))"

text \<open>The loop over the bars; \<open>motifBank\<close> lists the five section motifs.\<close>

fun markovBars :: "(nat \<Rightarrow> rat) \<Rightarrow> rat \<Rightarrow> int list \<Rightarrow> (string \<times> motifDef list) list
    \<Rightarrow> motifDef list \<Rightarrow> string list \<Rightarrow> (int \<Rightarrow> int list option) \<Rightarrow> int \<Rightarrow> nat list
    \<Rightarrow> int option \<times> nat \<times> int option noteEvent list
    \<Rightarrow> error + int option \<times> nat \<times> int option noteEvent list" where
  "markovBars rnd spb allScaleNotes motifBank verseMotif structure' chordNotesMap startBar [] st =
    Inr st"
| "markovBars rnd spb allScaleNotes motifBank verseMotif structure' chordNotesMap startBar (b # bs) st =
    (let beat = spb / 4;
         absoluteBar = startBar + int b;
         currentSection = (case js_index structure' absoluteBar of
                             Some sec \<Rightarrow> (if sec = [] then ''VERSE'' else sec)
                           | None \<Rightarrow> ''VERSE'');
         currentChordNotes = (case chordNotesMap absoluteBar of Some c \<Rightarrow> c | None \<Rightarrow> []);
         chordClasses = map (\<lambda>n. js_rem n 12) currentChordNotes
     in case barPattern motifBank verseMotif currentSection beat b of
          Inl e \<Rightarrow> Inl e
        | Inr currentPattern \<Rightarrow>
            markovBars rnd spb allScaleNotes motifBank verseMotif structure' chordNotesMap
              startBar bs
              (markovNotes rnd spb beat allScaleNotes currentSection chordClasses absoluteBar
                 currentPattern 0 st))"

text \<open>The steps per bar that \<open>generateMelodyMarkov\<close> works with: 16 unless the state has
  a value other than 0.\<close>

definition markovStepsPerBar :: "songState option \<Rightarrow> rat" where
  "markovStepsPerBar state =
    (case state of
       Some st \<Rightarrow> (if stepsPerBar st \<noteq> 0 then stepsPerBar st else 16)
     | None \<Rightarrow> 16)"

text \<open>
  The set-up of \<open>generateMelodyMarkov\<close>: the scale notes of the range 55 to 84 and the five
  motifs, which take the first five draws.
\<close>

definition markovSetup :: "(nat \<Rightarrow> rat) \<Rightarrow> int \<Rightarrow> string \<Rightarrow> string \<Rightarrow> rat
    \<Rightarrow> error + int list \<times> (string \<times> motifDef list) list \<times> motifDef list" where
  "markovSetup rnd rootKey' sn complexity spb =
    bindE (getScaleNotesArr rootKey' sn 55 84) (\<lambda>allScaleNotes.
    bindE (generateGoodMotif complexity spb (rnd 0)) (\<lambda>introMotif.
    bindE (generateGoodMotif complexity spb (rnd 1)) (\<lambda>verseMotif.
    bindE (generateGoodMotif complexity spb (rnd 2)) (\<lambda>chorusMotif.
    bindE (generateGoodMotif complexity spb (rnd 3)) (\<lambda>bridgeMotif.
    bindE (generateGoodMotif complexity spb (rnd 4)) (\<lambda>outroMotif.
      Inr (allScaleNotes,
           [(''INTRO'', introMotif), (''VERSE'', verseMotif), (''CHORUS'', chorusMotif),
            (''BRIDGE'', bridgeMotif), (''OUTRO'', outroMotif)],
           verseMotif)))))))"

definition generateMelodyMarkov :: "(nat \<Rightarrow> rat) \<Rightarrow> int \<Rightarrow> string \<Rightarrow> (int \<Rightarrow> int list option)
    \<Rightarrow> int \<Rightarrow> int \<Rightarrow> string \<Rightarrow> songState option \<Rightarrow> error + int option noteEvent list" where
  "generateMelodyMarkov rnd rootKey' sn chordNotesMap startBar numBars complexity state =
    (let spb = markovStepsPerBar state;
         structure' = (case state of Some st \<Rightarrow> barStructure st | None \<Rightarrow> [])
     in bindE (markovSetup rnd rootKey' sn complexity spb) (\<lambda>(allScaleNotes, motifBank, verseMotif).
          case markovBars rnd spb allScaleNotes motifBank verseMotif structure' chordNotesMap
                 startBar [0..<nat numBars] (Some (- 1), 5, []) of
            Inl e \<Rightarrow> Inl e
          | Inr (lastMidi, k, generatedNotes) \<Rightarrow> Inr generatedNotes))"

text \<open>
  The same loop with the notes kept apart by the pass that pushed them: one entry
  \<open>(absoluteBar, notes)\<close> for every pass of the loop over the bars.
\<close>

fun markovBarsBy :: "(nat \<Rightarrow> rat) \<Rightarrow> rat \<Rightarrow> int list \<Rightarrow> (string \<times> motifDef list) list
    \<Rightarrow> motifDef list \<Rightarrow> string list \<Rightarrow> (int \<Rightarrow> int list option) \<Rightarrow> int \<Rightarrow> nat list
    \<Rightarrow> int option \<times> nat \<Rightarrow> error + (int \<times> int option noteEvent list) list" where
  "markovBarsBy rnd spb allScaleNotes motifBank verseMotif structure' chordNotesMap startBar []
      st = Inr []"
| "markovBarsBy rnd spb allScaleNotes motifBank verseMotif structure' chordNotesMap startBar
      (b # bs) (lastMidi, k) =
    (let beat = spb / 4;
         absoluteBar = startBar + int b;
         currentSection = (case js_index structure' absoluteBar of
                             Some sec \<Rightarrow> (if sec = [] then ''VERSE'' else sec)
                           | None \<Rightarrow> ''VERSE'');
         currentChordNotes = (case chordNotesMap absoluteBar of Some c \<Rightarrow> c | None \<Rightarrow> []);
         chordClasses = map (\<lambda>n. js_rem n 12) currentChordNotes
     in case barPattern motifBank verseMotif currentSection beat b of
          Inl e \<Rightarrow> Inl e
        | Inr currentPattern \<Rightarrow>
            (case markovNotes rnd spb beat allScaleNotes currentSection chordClasses absoluteBar
                    currentPattern 0 (lastMidi, k, []) of
               (lastMidi', k', pushed) \<Rightarrow>
                 bindE (markovBarsBy rnd spb allScaleNotes motifBank verseMotif structure'
                          chordNotesMap startBar bs (lastMidi', k'))
                   (\<lambda>later. Inr ((absoluteBar, pushed) # later))))"

definition generateMelodyMarkovByBar :: "(nat \<Rightarrow> rat) \<Rightarrow> int \<Rightarrow> string \<Rightarrow> (int \<Rightarrow> int list option)
    \<Rightarrow> int \<Rightarrow> int \<Rightarrow> string \<Rightarrow> songState option
    \<Rightarrow> error + (int \<times> int option noteEvent list) list" where
  "generateMelodyMarkovByBar rnd rootKey' sn chordNotesMap startBar numBars complexity state =
    (let spb = markovStepsPerBar state;
         structure' = (case state of Some st \<Rightarrow> barStructure st | None \<Rightarrow> [])
     in bindE (markovSetup rnd rootKey' sn complexity spb) (\<lambda>(allScaleNotes, motifBank, verseMotif).
          markovBarsBy rnd spb allScaleNotes motifBank verseMotif structure' chordNotesMap
            startBar [0..<nat numBars] (Some (- 1), 5)))"

section \<open>Notes and bars\<close>

text \<open>A note lies inside bar \<open>bar\<close>: it starts no earlier than the bar and ends no later.\<close>

definition inBar :: "rat \<Rightarrow> int \<Rightarrow> 'm noteEvent \<Rightarrow> bool" where
  "inBar spb bar n = (of_int bar * spb \<le> time n \<and> time n + duration n \<le> (of_int bar + 1) * spb)"

section \<open>Reference definitions\<close>


text \<open>The section whose pattern or progression a section takes: Solo and Drop read as
  Chorus, and for the arpeggiator PreChorus as Verse.\<close>

definition arpTarget :: "string \<Rightarrow> string" where
  "arpTarget s = (if s = ''SOLO'' \<or> s = ''DROP'' then ''CHORUS''
                  else if s = ''PRE_CHORUS'' then ''VERSE'' else s)"

definition chordTarget :: "string \<Rightarrow> string" where
  "chordTarget s = (if s = ''SOLO'' \<or> s = ''DROP'' then ''CHORUS'' else s)"





text \<open>Every style of the library.\<close>

definition allStyles :: "progStyle list" where
  "allStyles = concat (map snd progressionStyles_table)"

text \<open>
  The whole steps of the drum grid, and the step of the sixteen-step pattern that a step
  index falls on.
\<close>

definition wholeStep :: "int \<Rightarrow> rat \<Rightarrow> bool" where
  "wholeStep stepIndex spb = (spb \<noteq> 0 \<and> js_fmod (of_int stepIndex) (spb / 16) = 0)"

definition patternStep :: "int \<Rightarrow> rat \<Rightarrow> int" where
  "patternStep stepIndex spb = js_rem \<lfloor>of_int stepIndex / (spb / 16)\<rfloor> 16"

text \<open>
  The number of notes of a bar whose pitch class belongs to the chord, and the scale
  notes inside the vocal range that \<open>generateMelody\<close> works with.
\<close>

definition matching :: "int noteEvent list \<Rightarrow> chordDef \<Rightarrow> int \<Rightarrow> int noteEvent list" where
  "matching ns cd rk =
    filter (\<lambda>n. js_rem (midi n) 12 \<in> set (map (\<lambda>i. js_rem (rk + i) 12) (intervals cd))) ns"

definition rangeTones :: "songState \<Rightarrow> int \<Rightarrow> int list" where
  "rangeTones state startBar =
    (case (getScaleNotes (rootKey state) (scaleName state), adjustedRange state startBar) of
       (Inr scaleNotes, Some lo, Some hi) \<Rightarrow> filter (\<lambda>m. m \<in> set scaleNotes) [lo..hi]
     | _ \<Rightarrow> [])"

section \<open>Example inputs\<close>

text \<open>
  A four-bar chorus in C major for a tenor, and the same song after the scale has been
  switched to Blues (five chord degrees) with the chord vi (index 5) still on bar 1.
\<close>

definition demoState :: songState where
  "demoState =
    \<lparr>rootKey = 0, scaleName = ''Major'', stepsPerBar = 16, totalBars = 4,
     barChords = [0, 4, 5, 3],
     barStructure = [''CHORUS'', ''CHORUS'', ''CHORUS'', ''CHORUS''],
     vocalRangeType = ''TENOR''\<rparr>"

definition bluesState :: songState where
  "bluesState =
    \<lparr>rootKey = 0, scaleName = ''Blues'', stepsPerBar = 16, totalBars = 4,
     barChords = [5, 3, 5, 3],
     barStructure = [''VERSE'', ''VERSE'', ''VERSE'', ''VERSE''],
     vocalRangeType = ''NONE''\<rparr>"

definition chordI :: chordDef where
  "chordI = mkChord ''I'' ''Major'' [0, 4, 7] ''TONIC'' ''Home, Stable''"

text \<open>
  Three notes over the chord V of C major (G, B, D), two of them chord tones; and forty
  notes over the chord I, twenty-three of them the chord tone C.
\<close>

definition chordV :: chordDef where
  "chordV = mkChord ''V'' ''Major'' [7, 11, 2] ''DOMINANT'' ''Strong''"

definition demoBar :: "int noteEvent list" where
  "demoBar =
    [\<lparr>midi = 67, time = 0, duration = 4, velocity = 1\<rparr>,
     \<lparr>midi = 60, time = 4, duration = 4, velocity = 1\<rparr>,
     \<lparr>midi = 62, time = 8, duration = 8, velocity = 1\<rparr>]"

definition halfBar :: "int noteEvent list" where
  "halfBar =
    replicate 23 \<lparr>midi = 60, time = 0, duration = 1, velocity = 1\<rparr>
    @ replicate 17 \<lparr>midi = 61, time = 0, duration = 1, velocity = 1\<rparr>"

section \<open>Lookups in the tables\<close>


lemma js_get_Own: "js_get obj key = Own v \<longleftrightarrow> map_of obj key = Some v"
  by (simp add: js_get_def split: option.splits)

lemma js_index_mem: "js_index xs i = Some x \<Longrightarrow> x \<in> set xs"
  by (auto simp: js_index_def split: if_splits)

section \<open>Properties of the harmony analyzer\<close>

lemma getScaleNotes_mem:
  assumes "getScaleNotes rk sn = Inr ns"
  shows "m \<in> set ns \<longleftrightarrow>
     0 \<le> m \<and> m < 127 \<and>
     js_rem (m - rk + 12) 12
       \<in> set (case map_of scales_table sn of Some ix \<Rightarrow> ix | None \<Rightarrow> scales_Major)"
proof -
  have "set (map int [0..<127]) = {m. 0 \<le> m \<and> m < 127}"
  proof (rule set_eqI)
    fix m :: int
    show "m \<in> set (map int [0..<127]) \<longleftrightarrow> m \<in> {m. 0 \<le> m \<and> m < 127}"
    proof
      assume "m \<in> set (map int [0..<127])"
      then show "m \<in> {m. 0 \<le> m \<and> m < 127}" by auto
    next
      assume "m \<in> {m. 0 \<le> m \<and> m < 127}"
      then have "nat m \<in> set [0..<127]" and "int (nat m) = m" by auto
      then show "m \<in> set (map int [0..<127])" by (metis image_eqI set_map)
    qed
  qed
  with assms show ?thesis
    by (auto simp: getScaleNotes_def js_get_def split: option.splits if_splits)
qed

lemma getScaleNotes_Major:
  "getScaleNotes 0 ''Major''
     = Inr (filter (\<lambda>i. js_rem (i - 0 + 12) 12 \<in> set scales_Major) (map int [0..<127]))"
  by (simp add: getScaleNotes_def js_get_def scales_table_def scales_Major_def)

text \<open>
  C1. The claim asks that \<open>getScaleNotes\<close> contains every MIDI value 0 to 127 whose
  distance from the root is a scale offset, MIDI 127 included. The loop stops before 127:
  with root C and the Major scale, 127 has pitch class 7 (a scale offset) and is left out.
\<close>

theorem getScaleNotes_omits_127:
  "js_rem (127 - 0 + 12) 12 \<in> set scales_Major
   \<and> js_get scales_table ''Major'' = Own scales_Major
   \<and> (\<exists>ns. getScaleNotes 0 ''Major'' = Inr ns \<and> 127 \<notin> set ns)"
proof (intro conjI)
  show "js_rem (127 - 0 + 12) 12 \<in> set scales_Major"
    by (simp add: js_rem_def scales_Major_def)
  show "js_get scales_table ''Major'' = Own scales_Major"
    by (simp add: js_get_def scales_table_def scales_Major_def)
  have "127 \<notin> set (filter (\<lambda>i. js_rem (i - 0 + 12) 12 \<in> set scales_Major) (map int [0..<127]))"
    using getScaleNotes_mem [OF getScaleNotes_Major, of 127] by simp
  with getScaleNotes_Major
  show "\<exists>ns. getScaleNotes 0 ''Major'' = Inr ns \<and> 127 \<notin> set ns" by blast
qed

subsection \<open>Rounding to double precision\<close>

lemma pow2_powi: "pow2 e = 2 powi e"
  by (simp add: pow2_def power_int_def inverse_eq_divide power_one_over)

lemma pow2_pos: "0 < pow2 e"
  by (simp add: pow2_powi)

lemma pow2_Suc: "pow2 (e + 1) = 2 * pow2 e"
  by (simp add: pow2_powi power_int_add)

lemma pow2_shift: "pow2 (e - 52) * 2 ^ 52 = pow2 e"
proof -
  have "pow2 (e - 52) = pow2 e / 2 powi 52"
    unfolding pow2_powi by (rule power_int_diff) simp
  then show ?thesis by simp
qed

lemma exponentUp_lower:
  "pow2 e \<le> x \<Longrightarrow> exponentUp n e x = Some e' \<Longrightarrow> pow2 e' \<le> x"
proof (induction n arbitrary: e)
  case 0 then show ?case by simp
next
  case (Suc n)
  show ?case
  proof (cases "x < pow2 (e + 1)")
    case True with Suc.prems show ?thesis by simp
  next
    case False
    then have "pow2 (e + 1) \<le> x" by simp
    moreover from False Suc.prems have "exponentUp n (e + 1) x = Some e'" by simp
    ultimately show ?thesis by (rule Suc.IH)
  qed
qed

lemma exponentDown_lower:
  "exponentDown n e x = Some e' \<Longrightarrow> pow2 e' \<le> x"
  by (induction n arbitrary: e) (auto split: if_splits)

lemma floatExponent_lower:
  assumes "floatExponent x = Some e" shows "pow2 e \<le> x"
proof (cases "1 \<le> x")
  case True
  then have "pow2 0 \<le> x" by (simp add: pow2_def)
  with assms True show ?thesis
    by (auto simp: floatExponent_def dest: exponentUp_lower)
next
  case False
  with assms show ?thesis
    by (auto simp: floatExponent_def dest: exponentDown_lower)
qed

lemma roundEven_err: "\<bar>of_int (roundEven q) - q\<bar> \<le> 1 / 2"
proof -
  have "of_int \<lfloor>q\<rfloor> \<le> q" "q < of_int \<lfloor>q\<rfloor> + 1" by linarith+
  then show ?thesis by (auto simp: roundEven_def Let_def)
qed

lemma fl_err:
  assumes "0 \<le> x" shows "\<bar>fl x - x\<bar> \<le> x / 2 ^ 53"
proof (cases "x = 0")
  case True then show ?thesis by (simp add: fl_def)
next
  case False
  with assms have pos: "0 < x" by simp
  show ?thesis
  proof (cases "floatExponent \<bar>x\<bar>")
    case None
    with False assms show ?thesis by (simp add: fl_def)
  next
    case (Some e)
    define u where "u = pow2 (e - 52)"
    have u: "0 < u" by (simp add: u_def pow2_pos)
    have ue: "u * 2 ^ 52 = pow2 e" unfolding u_def by (rule pow2_shift)
    from Some pos have "pow2 e \<le> x" using floatExponent_lower [of x e] by simp
    with ue have ux: "u * 2 ^ 52 \<le> x" by simp
    have flx: "fl x = of_int (roundEven (x / u)) * u"
      using False Some by (simp add: fl_def u_def)
    have "\<bar>fl x - x\<bar> = \<bar>of_int (roundEven (x / u)) - x / u\<bar> * u"
    proof -
      have "fl x - x = (of_int (roundEven (x / u)) - x / u) * u"
        using u by (simp add: flx field_simps)
      then show ?thesis using u by (simp add: abs_mult)
    qed
    also have "\<dots> \<le> (1 / 2) * u"
      using roundEven_err [of "x / u"] u by (intro mult_right_mono) auto
    also have "\<dots> \<le> x / 2 ^ 53" using ux by simp
    finally show ?thesis .
  qed
qed

lemma score_near:
  fixes k n :: nat
  assumes n: "0 < n" "n < 2 ^ 32" and k: "k \<le> n"
  shows "\<bar>of_int (js_round (fl (fl (of_nat k / of_nat n) * 100))) - 100 * of_nat k / (of_nat n :: rat)\<bar> \<le> 1 / 2"
proof -
  define q :: rat where "q = of_nat k / of_nat n"
  define a where "a = fl q"
  define x where "x = fl (a * 100)"
  define r where "r = js_round x"
  define d :: rat where "d = 1 / 2 ^ 53"
  have d: "0 < d" by (simp add: d_def)
  have q: "0 \<le> q" "q \<le> 1" using n k by (simp_all add: q_def)
  have "\<bar>a - q\<bar> \<le> q / 2 ^ 53" unfolding a_def using q(1) by (rule fl_err)
  then have aq: "\<bar>a - q\<bar> \<le> q * d" by (simp add: d_def)
  have qd: "q * d \<le> d" "q * d \<le> q"
    using q d by (simp_all add: mult_left_le_one_le mult_left_le d_def)
  have d1: "d \<le> 1" by (simp add: d_def)
  have a: "\<bar>a - q\<bar> \<le> d" "0 \<le> a" "a \<le> 2" using aq qd q d d1 by linarith+
  have "\<bar>x - a * 100\<bar> \<le> a * 100 / 2 ^ 53" unfolding x_def using a(2) by (intro fl_err) simp
  then have "\<bar>x - a * 100\<bar> \<le> (a * 100) * d" by (simp add: d_def)
  moreover have "(a * 100) * d \<le> 200 * d" using a(3) d by (intro mult_right_mono) auto
  ultimately have xa: "\<bar>x - a * 100\<bar> \<le> 200 * d" by linarith
  have xq: "\<bar>x - 100 * q\<bar> \<le> 300 * d" using xa a(1) by linarith
  have r1: "of_int r \<le> x + 1 / 2" and r2: "x + 1 / 2 < of_int r + 1"
    unfolding r_def js_round_def by linarith+
  have N: "(0::rat) < of_nat n" using n by simp
  have nq: "of_nat n * q = of_nat k" using n by (simp add: q_def)
  have nb: "(of_nat n :: rat) < 2 ^ 32"
    using n(2) by (metis of_nat_less_iff of_nat_numeral of_nat_power)
  have e1: "of_nat n * (600 * d) < 1"
  proof -
    have "of_nat n * (600 * d) \<le> 2 ^ 32 * (600 * d)" using nb d by (intro mult_right_mono) auto
    also have "\<dots> < 1" by (simp add: d_def)
    finally show ?thesis .
  qed
  have up: "2 * of_int r \<le> 200 * q + 1 + 600 * d" using r1 xq by linarith
  have lo: "200 * q - 1 - 600 * d < 2 * of_int r" using r2 xq by linarith
  have "of_nat n * (2 * of_int r) \<le> of_nat n * (200 * q + 1 + 600 * d)"
    using up N by (intro mult_left_mono) auto
  also have "\<dots> = 200 * (of_nat n * q) + of_nat n + of_nat n * (600 * d)"
    by (simp add: algebra_simps)
  also have "\<dots> < 200 * of_nat k + of_nat n + 1" using e1 nq by simp
  finally have "(of_int (2 * int n * r) :: rat) < of_int (200 * int k + int n + 1)" by simp
  then have "2 * int n * r < 200 * int k + int n + 1" by (simp only: of_int_less_iff)
  then have U: "2 * int n * r \<le> 200 * int k + int n" by simp
  have "of_nat n * (200 * q - 1 - 600 * d) < of_nat n * (2 * of_int r)"
    using lo N by (intro mult_strict_left_mono) auto
  moreover have "of_nat n * (200 * q - 1 - 600 * d)
      = 200 * (of_nat n * q) - of_nat n - of_nat n * (600 * d)"
    by (simp add: algebra_simps)
  ultimately have "200 * of_nat k - of_nat n - 1 < of_nat n * (2 * of_int r :: rat)"
    using e1 nq by linarith
  then have "(of_int (200 * int k - int n - 1) :: rat) < of_int (2 * int n * r)" by simp
  then have "200 * int k - int n - 1 < 2 * int n * r" by (simp only: of_int_less_iff)
  then have L: "200 * int k - int n \<le> 2 * int n * r" by simp
  have "(of_int (2 * int n * r) :: rat) \<le> of_int (200 * int k + int n)"
    using U by (simp only: of_int_le_iff)
  then have U': "of_nat n * (2 * of_int r) \<le> 200 * of_nat k + (of_nat n :: rat)" by simp
  have "(of_int (200 * int k - int n) :: rat) \<le> of_int (2 * int n * r)"
    using L by (simp only: of_int_le_iff)
  then have L': "200 * of_nat k - (of_nat n :: rat) \<le> of_nat n * (2 * of_int r)" by simp
  have r_eq: "of_int r = (of_nat n * (2 * of_int r)) / (2 * of_nat n :: rat)" using N by simp
  have "(of_nat n * (2 * of_int r)) / (2 * of_nat n :: rat)
      \<le> (200 * of_nat k + of_nat n) / (2 * of_nat n)"
    using U' N by (intro divide_right_mono) auto
  also have "\<dots> = 100 * of_nat k / of_nat n + 1 / 2" using N by (simp add: field_simps)
  finally have U'': "of_int r \<le> 100 * of_nat k / (of_nat n :: rat) + 1 / 2" using r_eq by simp
  have "(200 * of_nat k - of_nat n) / (2 * of_nat n :: rat)
      \<le> (of_nat n * (2 * of_int r)) / (2 * of_nat n)"
    using L' N by (intro divide_right_mono) auto
  moreover have "(200 * of_nat k - of_nat n) / (2 * of_nat n :: rat)
      = 100 * of_nat k / of_nat n - 1 / 2" using N by (simp add: field_simps)
  ultimately have L'': "100 * of_nat k / (of_nat n :: rat) - 1 / 2 \<le> of_int r" using r_eq by simp
  have "\<bar>of_int r - 100 * of_nat k / (of_nat n :: rat)\<bar> \<le> 1 / 2"
    using U'' L'' by linarith
  then show ?thesis by (simp add: r_def x_def a_def q_def)
qed


subsection \<open>The harmony score\<close>

lemma fold_count:
  "fold (\<lambda>n c. if P n then c + 1 else c) ns (a::int) = a + int (length (filter P ns))"
  by (induction ns arbitrary: a) auto

lemma matching_le: "length (matching ns cd rk) \<le> length ns"
  by (simp add: matching_def)

lemma analyzeBarHarmony_formula:
  "score (analyzeBarHarmony ns (Some cd) rk) =
     (if ns = [] then 100
      else js_round (fl (fl (of_nat (length (matching ns cd rk)) / of_nat (length ns)) * 100)))"
  by (simp add: analyzeBarHarmony_def Let_def fold_count matching_def)

text \<open>
  C8. For a chord definition that is not null, \<open>analyzeBarHarmony\<close> scores 100 on an
  empty note list. Otherwise the score is \<open>Math.round\<close> of the double-precision value of
  \<open>(matchCount / length) * 100\<close>, where \<open>matchCount\<close> counts the notes whose pitch class is
  one of the chord's allowed pitch classes (root key plus chord interval, modulo 12); for
  fewer than \<open>2 ^ 32\<close> notes (every array of the source) the score is an integer no more
  than one half away from the exact percentage.
\<close>

theorem analyzeBarHarmony_score:
  "score (analyzeBarHarmony ns (Some cd) rk) =
     (if ns = [] then 100
      else js_round (fl (fl (of_nat (length (matching ns cd rk)) / of_nat (length ns)) * 100)))
   \<and> (ns \<noteq> [] \<and> length ns < 2 ^ 32 \<longrightarrow>
        \<bar>of_int (score (analyzeBarHarmony ns (Some cd) rk))
           - 100 * of_nat (length (matching ns cd rk)) / (of_nat (length ns) :: rat)\<bar> \<le> 1 / 2)"
proof (intro conjI impI)
  show "score (analyzeBarHarmony ns (Some cd) rk) =
     (if ns = [] then 100
      else js_round (fl (fl (of_nat (length (matching ns cd rk)) / of_nat (length ns)) * 100)))"
    by (rule analyzeBarHarmony_formula)
next
  assume a: "ns \<noteq> [] \<and> length ns < 2 ^ 32"
  then have "0 < length ns" "length ns < 2 ^ 32" by simp_all
  from score_near [OF this matching_le [of ns cd rk]] a
  show "\<bar>of_int (score (analyzeBarHarmony ns (Some cd) rk))
           - 100 * of_nat (length (matching ns cd rk)) / (of_nat (length ns) :: rat)\<bar> \<le> 1 / 2"
    by (simp add: analyzeBarHarmony_formula)
qed

text \<open>
  Two notes of three belong to the chord V of C major: the exact percentage is 66.67 and
  the score is 67.
\<close>

theorem analyzeBarHarmony_score_witness:
  "demoBar \<noteq> [] \<and> length demoBar < 2 ^ 32
   \<and> score (analyzeBarHarmony demoBar (Some chordV) 0) = 67
   \<and> length (matching demoBar chordV 0) = 2
   \<and> \<bar>of_int (score (analyzeBarHarmony demoBar (Some chordV) 0))
        - 100 * of_nat (length (matching demoBar chordV 0)) / (of_nat (length demoBar) :: rat)\<bar>
       \<le> 1 / 2"
proof (intro conjI)
  show n1: "demoBar \<noteq> []" by (simp add: demoBar_def)
  show n2: "length demoBar < 2 ^ 32" by (simp add: demoBar_def)
  show "score (analyzeBarHarmony demoBar (Some chordV) 0) = 67" by code_simp
  show "length (matching demoBar chordV 0) = 2" by code_simp
  show "\<bar>of_int (score (analyzeBarHarmony demoBar (Some chordV) 0))
        - 100 * of_nat (length (matching demoBar chordV 0)) / (of_nat (length demoBar) :: rat)\<bar>
       \<le> 1 / 2"
    using n1 n2 by (rule analyzeBarHarmony_score [THEN conjunct2, rule_format, OF conjI])
qed

text \<open>
  The claim read with exact arithmetic fails for 23 matching notes of 40: the exact
  percentage is 57.5, which \<open>Math.round\<close> takes to 58, but the quotient 23 / 40 is rounded
  down to a double, the product with 100 falls just below 57.5, and the score is 57.
\<close>

theorem analyzeBarHarmony_rounds_down:
  "score (analyzeBarHarmony halfBar (Some chordI) 0) = 57
   \<and> length (matching halfBar chordI 0) = 23 \<and> length halfBar = 40
   \<and> js_round (23 / 40 * 100) = 58"
  by code_simp

section \<open>Properties of the progression selector and the arpeggiator lookup\<close>



lemma arpTarget_intro:
  "s \<noteq> ''INTRO'' \<Longrightarrow> s \<noteq> ''OUTRO'' \<Longrightarrow> arpTarget s \<noteq> ''INTRO'' \<and> arpTarget s \<noteq> ''OUTRO''"
  by (simp add: arpTarget_def)















end
